theory Spec2Isabelle
  imports Main "HOL-Library.AList" "HOL-Library.Multiset"
begin

section \<open>Data model of builtin/logical/pki/path_resign_crls.go\<close>

text \<open>
  Go strings and byte slices are byte sequences; both are lists of 8-bit characters here,
  so the conversions \<^verbatim>\<open>[]byte(s)\<close> and \<^verbatim>\<open>string(b)\<close> are the identity.
  A \<^verbatim>\<open>time.Time\<close> is read only through \<^verbatim>\<open>Equal\<close> and \<^verbatim>\<open>After\<close>, which compare
  instants: it is the instant, an integer count of nanoseconds. A \<^verbatim>\<open>*big.Int\<close> is an
  unbounded integer. The request's Go \<^verbatim>\<open>int\<close> fields are only compared with constants
  and widened to \<^verbatim>\<open>int64\<close>, never added to, so they are integers too.
\<close>

type_synonym bytes = "char list"
type_synonym time = int
type_synonym duration = int

text \<open>\<^verbatim>\<open>pkix.Extension\<close>\<close>

record Extension =
  Id_ext :: "nat list"
  Critical :: bool
  Value :: bytes

text \<open>\<^verbatim>\<open>pkix.RevokedCertificate\<close>\<close>

record RevokedCertificate =
  SerialNumber :: int
  RevocationTime :: time
  Extensions :: "Extension list"

text \<open>
  \<^verbatim>\<open>x509.RevocationList\<close>: the fields the handler writes into its template, and \<open>Raw\<close>,
  the encoding a parsed list was read from (what its signature is checked over).
\<close>

record RevocationList =
  Raw :: bytes
  SignatureAlgorithm :: nat
  RevokedCertificates :: "RevokedCertificate list"
  Number :: int
  ThisUpdate :: time
  NextUpdate :: time
  ExtraExtensions :: "Extension list"

text \<open>\<^verbatim>\<open>pem.Block\<close>\<close>

record Block =
  Type :: string
  Headers :: "(string \<times> string) list"
  Bytes :: bytes

text \<open>\<^verbatim>\<open>certutil.CAInfoBundle\<close>: the issuer's certificate, key and CRL signature algorithm.\<close>

record CAInfoBundle =
  Certificate :: bytes
  PrivateKey :: bytes
  RevocationSigAlg :: nat

text \<open>
  \<^verbatim>\<open>framework.FieldData\<close>, read with \<^verbatim>\<open>data.Get\<close>: the request's fields after the
  framework has type-checked them and filled in the schema's defaults.
\<close>

record FieldData =
  Get_issuer_ref :: string
  Get_crl_number :: int
  Get_delta_crl_base_number :: int
  Get_next_update :: string
  Get_crls :: "string list"
  Get_format :: string

text \<open>
  Everything the file calls that is defined outside it: the backend's state and helpers
  of the pki package, the certutil helper, and the Go standard library. A returned Go
  error is its message, on the left of a sum. \<open>mapRange\<close> is the order in which the
  runtime ranges over a map, which Go leaves unspecified; a map is kept as an association
  list with distinct keys.
\<close>

record env =
  useLegacyBundleCaStorage :: bool
  issuerRefParam :: string
  getIssuerRef :: "FieldData \<Rightarrow> string"
  resolveIssuerReference :: "string \<Rightarrow> string + string"
  fetchCAInfoByIssuerId :: "string \<Rightarrow> string + CAInfoBundle"
  serialFromBigInt :: "int \<Rightarrow> string"
  CreateDeltaCRLIndicatorExt :: "int \<Rightarrow> string + Extension"
  unicode_ToLower :: "string \<Rightarrow> string"
  ParseDuration :: "string \<Rightarrow> string + duration"
  time_Now :: time
  pem_Decode :: "bytes \<Rightarrow> Block option \<times> bytes"
  pem_EncodeToMemory :: "Block \<Rightarrow> bytes"
  StdEncoding_EncodeToString :: "bytes \<Rightarrow> string"
  ParseRevocationList :: "bytes \<Rightarrow> string + RevocationList"
  CheckSignatureFrom :: "RevocationList \<Rightarrow> bytes \<Rightarrow> string option"
  CreateRevocationList :: "RevocationList \<Rightarrow> bytes \<Rightarrow> bytes \<Rightarrow> string + bytes"
  mapRange :: "(string \<times> RevokedCertificate) list \<Rightarrow> (string \<times> RevokedCertificate) list"

text \<open>
  A function of the file either returns an error value or, where it dereferences a nil
  pointer, panics.
\<close>

datatype failure = Err string | NilDereference

text \<open>
  What the handler hands back: a response with warnings and the \<^verbatim>\<open>crl\<close> field,
  \<^verbatim>\<open>logical.ErrorResponse(msg), nil\<close>, \<^verbatim>\<open>nil, err\<close>, or a panic.
\<close>

datatype outcome =
  Response "string list" string
  | ErrorResponse string
  | GoError string
  | Panicked

text \<open>The calls the handler makes once the request's format has been accepted, in order.\<close>

datatype call =
  CallParseDuration string
  | CallDecodePemCrls "string list"
  | CallGetCaBundle string
  | CallVerifyCrlsAreFromIssuersKey bytes "RevocationList list"
  | CallGetAllRevokedCerts "RevocationList list"
  | CallCreateDeltaCRLIndicatorExt int
  | CallCreateRevocationList RevocationList bytes bytes
  | CallEncodeResponse bytes bool

section \<open>Formatting\<close>

text \<open>The verb \<^verbatim>\<open>%d\<close> of \<^verbatim>\<open>fmt\<close> on a loop index: its decimal digits.\<close>

definition digit :: "nat \<Rightarrow> char" where
  "digit n = ''0123456789'' ! n"

fun fmt_d :: "nat \<Rightarrow> string" where
  "fmt_d n = (if n < 10 then [digit n] else fmt_d (n div 10) @ [digit (n mod 10)])"

declare fmt_d.simps [simp del]

text \<open>
  \<^verbatim>\<open>strings.ToLower\<close>: a string whose bytes are all below \<^verbatim>\<open>utf8.RuneSelf\<close> (the top
  bit is clear) has its letters A to Z moved to a to z; any other string is mapped rune by
  rune through the Unicode tables.
\<close>

definition upperLetters :: string where
  "upperLetters = ''ABCDEFGHIJKLMNOPQRSTUVWXYZ''"

definition lowerLetters :: string where
  "lowerLetters = ''abcdefghijklmnopqrstuvwxyz''"

definition ascii_lower :: "char \<Rightarrow> char" where
  "ascii_lower c =
     (case map_of (zip upperLetters lowerLetters) c of
        Some l \<Rightarrow> l
      | None \<Rightarrow> c)"

definition isASCII :: "string \<Rightarrow> bool" where
  "isASCII s = list_all (\<lambda>c. \<not> digit7 c) s"

definition strings_ToLower :: "env \<Rightarrow> string \<Rightarrow> string" where
  "strings_ToLower b s = (if isASCII s then map ascii_lower s else unicode_ToLower b s)"

section \<open>The functions of the file\<close>

subsection \<open>getCrlFormat\<close>

definition getCrlFormat :: "env \<Rightarrow> string \<Rightarrow> string + string" where
  "getCrlFormat b requestedValue =
     (let format = strings_ToLower b requestedValue in
      if format = ''pem'' \<or> format = ''der'' then Inr format
      else Inl (''unknown format value of '' @ requestedValue))"

subsection \<open>encodeResponse\<close>

definition encodeResponse :: "env \<Rightarrow> bytes \<Rightarrow> bool \<Rightarrow> string" where
  "encodeResponse b crlBytes derFormatRequested =
     (if derFormatRequested then StdEncoding_EncodeToString b crlBytes
      else pem_EncodeToMemory b \<lparr>Type = ''X509 CRL'', Headers = [], Bytes = crlBytes\<rparr>)"

subsection \<open>decodePemCrl and decodePemCrls\<close>

text \<open>
  \<^verbatim>\<open>block.Bytes\<close> is read without a nil check: when \<^verbatim>\<open>pem.Decode\<close> returns no block and
  an empty rest, the read is a nil-pointer dereference.
\<close>

definition decodePemCrl :: "env \<Rightarrow> string \<Rightarrow> failure + RevocationList" where
  "decodePemCrl b crl =
     (case pem_Decode b crl of
        (block, rest) \<Rightarrow>
          if length rest \<noteq> 0 then Inl (Err ''invalid crl; should be one PEM block only'')
          else (case block of
                  None \<Rightarrow> Inl NilDereference
                | Some blk \<Rightarrow>
                    (case ParseRevocationList b (Bytes blk) of
                       Inl err \<Rightarrow> Inl (Err err)
                     | Inr parsed \<Rightarrow> Inr parsed)))"

text \<open>The loop of \<open>decodePemCrls\<close>, from index \<open>i\<close> with the lists decoded so far.\<close>

fun decodePemCrls_loop ::
  "env \<Rightarrow> nat \<Rightarrow> RevocationList list \<Rightarrow> string list \<Rightarrow> failure + RevocationList list" where
  "decodePemCrls_loop b i acc [] = Inr acc"
| "decodePemCrls_loop b i acc (rawCrl # rawCrls) =
     (case decodePemCrl b rawCrl of
        Inl NilDereference \<Rightarrow> Inl NilDereference
      | Inl (Err err) \<Rightarrow> Inl (Err (''failed decoding crl '' @ fmt_d i @ '': '' @ err))
      | Inr crl \<Rightarrow> decodePemCrls_loop b (i + 1) (acc @ [crl]) rawCrls)"

definition decodePemCrls :: "env \<Rightarrow> string list \<Rightarrow> failure + RevocationList list" where
  "decodePemCrls b rawCrls = decodePemCrls_loop b 0 [] rawCrls"

subsection \<open>getCaBundle\<close>

definition getCaBundle :: "env \<Rightarrow> string \<Rightarrow> string + CAInfoBundle" where
  "getCaBundle b issuerRef =
     (case resolveIssuerReference b issuerRef of
        Inl err \<Rightarrow> Inl (''failed to resolve issuer '' @ issuerRefParam b @ '': '' @ err)
      | Inr issuerId \<Rightarrow> fetchCAInfoByIssuerId b issuerId)"

subsection \<open>verifyCrlsAreFromIssuersKey\<close>

fun verifyCrls_loop :: "env \<Rightarrow> bytes \<Rightarrow> nat \<Rightarrow> RevocationList list \<Rightarrow> string option" where
  "verifyCrls_loop b caCert i [] = None"
| "verifyCrls_loop b caCert i (crl # rest) =
     (case CheckSignatureFrom b crl caCert of
        Some err \<Rightarrow> Some (''CRL index: '' @ fmt_d i @ '' was not signed by requested issuer'')
      | None \<Rightarrow> verifyCrls_loop b caCert (i + 1) rest)"

definition verifyCrlsAreFromIssuersKey :: "env \<Rightarrow> bytes \<Rightarrow> RevocationList list \<Rightarrow> string option" where
  "verifyCrlsAreFromIssuersKey b caCert crls = verifyCrls_loop b caCert 0 crls"

subsection \<open>getAllRevokedCerts\<close>

type_synonym uniqueCert = "(string \<times> RevokedCertificate) list"

definition time_Equal :: "time \<Rightarrow> time \<Rightarrow> bool" where
  "time_Equal t u = (t = u)"

definition time_After :: "time \<Rightarrow> time \<Rightarrow> bool" where
  "time_After t u = (u < t)"

definition duplicateWarning :: "string \<Rightarrow> string" where
  "duplicateWarning serial =
     ''Duplicate serial '' @ serial @
     '' with different revocation times detected, using oldest revocation time''"

text \<open>The body of the inner loop, on the map and the warnings so far.\<close>

definition certStep ::
  "env \<Rightarrow> uniqueCert \<times> string list \<Rightarrow> RevokedCertificate \<Rightarrow> uniqueCert \<times> string list" where
  "certStep b st cert =
     (case st of
        (uniqueCert, warnings) \<Rightarrow>
          let serial = serialFromBigInt b (SerialNumber cert);
              curCert = cert\<lparr>Extensions := []\<rparr>
          in (case map_of uniqueCert serial of
                None \<Rightarrow> (AList.update serial curCert uniqueCert, warnings)
              | Some existingCert \<Rightarrow>
                  if time_Equal (RevocationTime existingCert) (RevocationTime curCert)
                  then (uniqueCert, warnings)
                  else
                    let warn = duplicateWarning serial;
                        warnings' = warnings @ [warn]
                    in if time_After (RevocationTime existingCert) (RevocationTime curCert)
                       then (AList.update serial curCert uniqueCert, warnings')
                       else (uniqueCert, warnings')))"

fun certLoop ::
  "env \<Rightarrow> uniqueCert \<times> string list \<Rightarrow> RevokedCertificate list \<Rightarrow> uniqueCert \<times> string list" where
  "certLoop b st [] = st"
| "certLoop b st (cert # certs) = certLoop b (certStep b st cert) certs"

fun crlLoop ::
  "env \<Rightarrow> uniqueCert \<times> string list \<Rightarrow> RevocationList list \<Rightarrow> uniqueCert \<times> string list" where
  "crlLoop b st [] = st"
| "crlLoop b st (crl # rest) = crlLoop b (certLoop b st (RevokedCertificates crl)) rest"

text \<open>The map and the warnings when both loops are done.\<close>

definition reconcile :: "env \<Rightarrow> RevocationList list \<Rightarrow> uniqueCert \<times> string list" where
  "reconcile b crls = crlLoop b ([], []) crls"

text \<open>
  The revoked certificates are the map's values in the order the runtime ranges over it;
  the returned error is always nil.
\<close>

definition getAllRevokedCerts ::
  "env \<Rightarrow> RevocationList list \<Rightarrow> RevokedCertificate list \<times> string list \<times> string option" where
  "getAllRevokedCerts b crls =
     (case reconcile b crls of
        (uniqueCert, warnings) \<Rightarrow> (map snd (mapRange b uniqueCert), warnings, None))"

subsection \<open>pathUpdateResignCrlsHandler\<close>

text \<open>
  The handler, with the calls it has made when it returns. \<^verbatim>\<open>now.Add\<close> is the sum of
  the instant and the offset; \<^verbatim>\<open>fetchCAInfoByIssuerId\<close> is always asked for the
  CRL-signing usage.
\<close>

definition pathUpdateResignCrlsHandler :: "env \<Rightarrow> FieldData \<Rightarrow> outcome \<times> call list" where
  "pathUpdateResignCrlsHandler b data =
     (if useLegacyBundleCaStorage b
      then (ErrorResponse ''This API cannot be used until the migration has completed'', [])
      else
        let issuerRef = getIssuerRef b data;
            crlNumber = Get_crl_number data;
            deltaCrlBaseNumber = Get_delta_crl_base_number data;
            nextUpdateStr = Get_next_update data;
            rawCrls = Get_crls data
        in
        (case getCrlFormat b (Get_format data) of
          Inl err \<Rightarrow> (ErrorResponse err, [])
        | Inr format \<Rightarrow>
        (let t1 = [CallParseDuration nextUpdateStr] in
        (case ParseDuration b nextUpdateStr of
          Inl err \<Rightarrow> (ErrorResponse (''invalid value for next_update: '' @ err), t1)
        | Inr nextUpdateOffset \<Rightarrow>
        (if nextUpdateOffset \<le> 0
        then (ErrorResponse ''next_update parameter must be greater than 0'', t1)
        else if crlNumber < 0
        then (ErrorResponse ''crl_number parameter must be 0 or greater'', t1)
        else if deltaCrlBaseNumber < - 1
        then (ErrorResponse ''delta_crl_base_number parameter must be -1 or greater'', t1)
        else if issuerRef = []
        then (ErrorResponse (issuerRefParam b @ '' parameter cannot be blank''), t1)
        else
        (let t2 = t1 @ [CallDecodePemCrls rawCrls] in
        (case decodePemCrls b rawCrls of
          Inl NilDereference \<Rightarrow> (Panicked, t2)
        | Inl (Err err) \<Rightarrow> (ErrorResponse err, t2)
        | Inr providedCrls \<Rightarrow>
        (let t3 = t2 @ [CallGetCaBundle issuerRef] in
        (case getCaBundle b issuerRef of
          Inl err \<Rightarrow> (ErrorResponse err, t3)
        | Inr caBundle \<Rightarrow>
        (let t4 = t3 @ [CallVerifyCrlsAreFromIssuersKey (Certificate caBundle) providedCrls] in
        (case verifyCrlsAreFromIssuersKey b (Certificate caBundle) providedCrls of
          Some err \<Rightarrow> (ErrorResponse err, t4)
        | None \<Rightarrow>
        (let t5 = t4 @ [CallGetAllRevokedCerts providedCrls] in
        (case getAllRevokedCerts b providedCrls of
          (revokedCerts, warnings, Some err) \<Rightarrow> (ErrorResponse err, t5)
        | (revokedCerts, warnings, None) \<Rightarrow>
        (let now = time_Now b;
            template = \<lparr>Raw = [],
                        SignatureAlgorithm = RevocationSigAlg caBundle,
                        RevokedCertificates = revokedCerts,
                        Number = crlNumber,
                        ThisUpdate = now,
                        NextUpdate = now + nextUpdateOffset,
                        ExtraExtensions = []\<rparr>;
            sign = (\<lambda>template t6.
              let t7 = t6 @ [CallCreateRevocationList template (Certificate caBundle)
                               (PrivateKey caBundle)] in
              (case CreateRevocationList b template (Certificate caBundle) (PrivateKey caBundle) of
                Inl err \<Rightarrow> (GoError (''error creating new CRL: '' @ err), t7)
              | Inr crlBytes \<Rightarrow>
                  (let body = encodeResponse b crlBytes (format = ''der'') in
                   (Response warnings body,
                    t7 @ [CallEncodeResponse crlBytes (format = ''der'')]))))
        in
        if deltaCrlBaseNumber > - 1
        then
          (let t6 = t5 @ [CallCreateDeltaCRLIndicatorExt deltaCrlBaseNumber] in
           (case CreateDeltaCRLIndicatorExt b deltaCrlBaseNumber of
             Inl err \<Rightarrow>
               (GoError (''could not create crl delta indicator extension: '' @ err), t6)
           | Inr ext \<Rightarrow> sign (template\<lparr>ExtraExtensions := [ext]\<rparr>) t6))
        else sign template t5))))))))))))))"

section \<open>Notions used to state the properties\<close>

text \<open>
  The key under which the inner loop files an entry, the entries of all lists in the order
  the loops visit them, and the requirement on the runtime that ranging over a map visits
  every entry of it once.
\<close>

definition serialKey :: "env \<Rightarrow> RevokedCertificate \<Rightarrow> string" where
  "serialKey b cert = serialFromBigInt b (SerialNumber cert)"

definition allEntries :: "RevocationList list \<Rightarrow> RevokedCertificate list" where
  "allEntries crls = concat (map RevokedCertificates crls)"

text \<open>
  The state of the map after the entries \<open>es\<close>: keys are distinct, every stored entry is an
  entry of \<open>es\<close> filed under its own key without its extensions and no later than any
  entry of \<open>es\<close> with that key, and every entry of \<open>es\<close> has its key in the map.
\<close>

definition reconciled ::
  "env \<Rightarrow> RevokedCertificate list \<Rightarrow> uniqueCert \<Rightarrow> bool" where
  "reconciled b es m =
     (distinct (map fst m) \<and>
      (\<forall>k e. map_of m k = Some e \<longrightarrow>
         (\<exists>e0\<in>set es. e = e0\<lparr>Extensions := []\<rparr> \<and> serialKey b e0 = k \<and>
            (\<forall>e1\<in>set es. serialKey b e1 = k \<longrightarrow> RevocationTime e \<le> RevocationTime e1))) \<and>
      (\<forall>e0\<in>set es. map_of m (serialKey b e0) \<noteq> None))"

definition rangePermutes :: "env \<Rightarrow> bool" where
  "rangePermutes b = (\<forall>m. mset (mapRange b m) = mset m)"




text \<open>
  The request passes every check the handler makes before it decodes the lists.
\<close>

definition requestAccepted :: "env \<Rightarrow> FieldData \<Rightarrow> bool" where
  "requestAccepted b data =
     (\<not> useLegacyBundleCaStorage b \<and>
      \<not> isl (getCrlFormat b (Get_format data)) \<and>
      (case ParseDuration b (Get_next_update data) of Inl err \<Rightarrow> False | Inr d \<Rightarrow> 0 < d) \<and>
      0 \<le> Get_crl_number data \<and>
      - 1 \<le> Get_delta_crl_base_number data \<and>
      getIssuerRef b data \<noteq> [])"

text \<open>
  A list's signature verifies against the issuer's certificate; the index of the first
  list whose signature does not (the number of lists if all verify).
\<close>

definition signatureOk :: "env \<Rightarrow> bytes \<Rightarrow> RevocationList \<Rightarrow> bool" where
  "signatureOk b caCert crl = (CheckSignatureFrom b crl caCert = None)"

definition firstUnsigned :: "env \<Rightarrow> bytes \<Rightarrow> RevocationList list \<Rightarrow> nat" where
  "firstUnsigned b caCert crls = length (takeWhile (signatureOk b caCert) crls)"

text \<open>Two strings are equal up to the case of their ASCII letters.\<close>

definition equalFold :: "string \<Rightarrow> string \<Rightarrow> bool" where
  "equalFold s t = (map ascii_lower s = map ascii_lower t)"



text \<open>The call builds the delta indicator or signs.\<close>

definition buildsOrSigns :: "call \<Rightarrow> bool" where
  "buildsOrSigns c =
     (case c of
        CallCreateDeltaCRLIndicatorExt n \<Rightarrow> True
      | CallCreateRevocationList template ca key \<Rightarrow> True
      | _ \<Rightarrow> False)"

section \<open>A test double\<close>

text \<open>
  Modelled from the spec: \<^verbatim>\<open>serialFromBigInt\<close> is defined elsewhere in the pki package;
  the spec keys each entry by the canonical decimal string of its serial number.
\<close>

definition decimal_serial :: "int \<Rightarrow> string" where
  "decimal_serial n = (if n < 0 then ''-'' @ fmt_d (nat (- n)) else fmt_d (nat n))"

text \<open>
  An environment with fixed answers, and two revocation lists that both revoke serial
  12345, the first at time 100 and the second at time 160.
\<close>

definition demo_ext :: Extension where
  "demo_ext = \<lparr>Id_ext = [2, 5, 29, 21], Critical = False, Value = ''reason''\<rparr>"

definition demo_bundle :: CAInfoBundle where
  "demo_bundle = \<lparr>Certificate = ''ca-cert'', PrivateKey = ''ca-key'', RevocationSigAlg = 4\<rparr>"

definition demo_crl :: "bytes \<Rightarrow> RevokedCertificate list \<Rightarrow> RevocationList" where
  "demo_crl raw certs =
     \<lparr>Raw = raw, SignatureAlgorithm = 4, RevokedCertificates = certs, Number = 1,
      ThisUpdate = 0, NextUpdate = 10, ExtraExtensions = []\<rparr>"

definition demo_A :: RevocationList where
  "demo_A = demo_crl ''a''
     [\<lparr>SerialNumber = 12345, RevocationTime = 100, Extensions = [demo_ext]\<rparr>,
      \<lparr>SerialNumber = 7, RevocationTime = 50, Extensions = []\<rparr>]"

definition demo_B :: RevocationList where
  "demo_B = demo_crl ''b''
     [\<lparr>SerialNumber = 200, RevocationTime = 60, Extensions = []\<rparr>,
      \<lparr>SerialNumber = 12345, RevocationTime = 160, Extensions = []\<rparr>]"

definition demo_env :: env where
  "demo_env =
     \<lparr>useLegacyBundleCaStorage = False,
      issuerRefParam = ''issuer_ref'',
      getIssuerRef = Get_issuer_ref,
      resolveIssuerReference =
        (\<lambda>r. if r = ''default'' then Inr ''issuer-1'' else Inl ''unable to find issuer''),
      fetchCAInfoByIssuerId = (\<lambda>i. Inr demo_bundle),
      serialFromBigInt = decimal_serial,
      CreateDeltaCRLIndicatorExt =
        (\<lambda>n. Inr \<lparr>Id_ext = [2, 5, 29, 27], Critical = True, Value = decimal_serial n\<rparr>),
      unicode_ToLower = (\<lambda>s. s),
      ParseDuration = (\<lambda>s. if s = ''72h'' then Inr 259200000000000 else Inl ''time: invalid duration''),
      time_Now = 1000,
      pem_Decode =
        (\<lambda>s. if s = ''PEM(a)'' then (Some \<lparr>Type = ''X509 CRL'', Headers = [], Bytes = ''a''\<rparr>, [])
             else if s = ''PEM(b)'' then (Some \<lparr>Type = ''X509 CRL'', Headers = [], Bytes = ''b''\<rparr>, [])
             else if s = ''PEM(f)'' then (Some \<lparr>Type = ''X509 CRL'', Headers = [], Bytes = ''f''\<rparr>, [])
             else if s = ''PEM(x)'' then (Some \<lparr>Type = ''X509 CRL'', Headers = [], Bytes = ''x''\<rparr>, [])
             else (None, s)),
      pem_EncodeToMemory = (\<lambda>blk. ''PEM '' @ Type blk @ '': '' @ Bytes blk),
      StdEncoding_EncodeToString = (\<lambda>bs. ''B64: '' @ bs),
      ParseRevocationList =
        (\<lambda>bs. if bs = ''a'' then Inr demo_A
              else if bs = ''b'' then Inr demo_B
              else if bs = ''f'' then Inr (demo_crl ''f'' [])
              else Inl ''x509: malformed crl''),
      CheckSignatureFrom =
        (\<lambda>crl ca. if Raw crl = ''f'' then Some ''crypto/rsa: verification error'' else None),
      CreateRevocationList = (\<lambda>template ca key. Inr ''signed''),
      mapRange = rev\<rparr>"

text \<open>
  A request to the test double, a list whose signature it rejects, the template it is
  expected to sign for the two lists above, and a test double whose signing fails.
\<close>

definition demo_data :: "string list \<Rightarrow> string \<Rightarrow> int \<Rightarrow> FieldData" where
  "demo_data rawCrls fmt delta =
     \<lparr>Get_issuer_ref = ''default'', Get_crl_number = 5, Get_delta_crl_base_number = delta,
      Get_next_update = ''72h'', Get_crls = rawCrls, Get_format = fmt\<rparr>"

definition demo_F :: RevocationList where
  "demo_F = demo_crl ''f'' []"

definition demo_template :: "Extension list \<Rightarrow> RevocationList" where
  "demo_template exts =
     \<lparr>Raw = [], SignatureAlgorithm = 4,
      RevokedCertificates =
        [\<lparr>SerialNumber = 200, RevocationTime = 60, Extensions = []\<rparr>,
         \<lparr>SerialNumber = 7, RevocationTime = 50, Extensions = []\<rparr>,
         \<lparr>SerialNumber = 12345, RevocationTime = 100, Extensions = []\<rparr>],
      Number = 5, ThisUpdate = 1000, NextUpdate = 259200000001000, ExtraExtensions = exts\<rparr>"


section \<open>Evaluation of the formatting functions and of the test double\<close>

lemma fmt_d_numeral:
  "fmt_d (numeral k) =
     (if (numeral k :: nat) < 10 then [digit (numeral k)]
      else fmt_d (numeral k div 10) @ [digit (numeral k mod 10)])"
  by (rule fmt_d.simps)

lemma fmt_d_0: "fmt_d 0 = ''0''"
  by (simp add: fmt_d.simps [of 0] digit_def)

lemma fmt_d_1: "fmt_d (Suc 0) = ''1''"
  by (simp add: fmt_d.simps [of "Suc 0"] digit_def)

lemmas fmt_d_eval = fmt_d_numeral fmt_d_0 fmt_d_1 digit_def

lemma demo_rangePermutes: "rangePermutes demo_env"
  by (simp add: rangePermutes_def demo_env_def)

lemma demo_sel:
  "serialFromBigInt demo_env = decimal_serial"
  "mapRange demo_env = rev"
  by (simp_all add: demo_env_def)

lemmas reconcile_eval =
  getAllRevokedCerts_def reconcile_def demo_A_def demo_B_def demo_crl_def certStep_def
  demo_sel decimal_serial_def fmt_d_eval time_Equal_def time_After_def duplicateWarning_def
  serialKey_def allEntries_def

lemma demo_A_B:
  "getAllRevokedCerts demo_env [demo_A, demo_B] =
     ([\<lparr>SerialNumber = 200, RevocationTime = 60, Extensions = []\<rparr>,
       \<lparr>SerialNumber = 7, RevocationTime = 50, Extensions = []\<rparr>,
       \<lparr>SerialNumber = 12345, RevocationTime = 100, Extensions = []\<rparr>],
      [''Duplicate serial 12345 with different revocation times detected, using oldest revocation time''],
      None)"
  by (simp add: reconcile_eval)

lemma demo_B_A:
  "getAllRevokedCerts demo_env [demo_B, demo_A] =
     ([\<lparr>SerialNumber = 7, RevocationTime = 50, Extensions = []\<rparr>,
       \<lparr>SerialNumber = 12345, RevocationTime = 100, Extensions = []\<rparr>,
       \<lparr>SerialNumber = 200, RevocationTime = 60, Extensions = []\<rparr>],
      [''Duplicate serial 12345 with different revocation times detected, using oldest revocation time''],
      None)"
  by (simp add: reconcile_eval)

lemma demo_fields:
  "useLegacyBundleCaStorage demo_env = False"
  "issuerRefParam demo_env = ''issuer_ref''"
  "getIssuerRef demo_env = Get_issuer_ref"
  "resolveIssuerReference demo_env =
     (\<lambda>r. if r = ''default'' then Inr ''issuer-1'' else Inl ''unable to find issuer'')"
  "fetchCAInfoByIssuerId demo_env = (\<lambda>i. Inr demo_bundle)"
  "CreateDeltaCRLIndicatorExt demo_env =
     (\<lambda>n. Inr \<lparr>Id_ext = [2, 5, 29, 27], Critical = True, Value = decimal_serial n\<rparr>)"
  "unicode_ToLower demo_env = (\<lambda>s. s)"
  "ParseDuration demo_env =
     (\<lambda>s. if s = ''72h'' then Inr 259200000000000 else Inl ''time: invalid duration'')"
  "time_Now demo_env = 1000"
  "pem_EncodeToMemory demo_env = (\<lambda>blk. ''PEM '' @ Type blk @ '': '' @ Bytes blk)"
  "StdEncoding_EncodeToString demo_env = (\<lambda>bs. ''B64: '' @ bs)"
  "CheckSignatureFrom demo_env =
     (\<lambda>crl ca. if Raw crl = ''f'' then Some ''crypto/rsa: verification error'' else None)"
  "CreateRevocationList demo_env = (\<lambda>template ca key. Inr ''signed'')"
  by (simp_all add: demo_env_def)

lemma demo_pem:
  "pem_Decode demo_env [] = (None, [])"
  "pem_Decode demo_env ''PEM(a)'' = (Some \<lparr>Type = ''X509 CRL'', Headers = [], Bytes = ''a''\<rparr>, [])"
  "pem_Decode demo_env ''PEM(b)'' = (Some \<lparr>Type = ''X509 CRL'', Headers = [], Bytes = ''b''\<rparr>, [])"
  "pem_Decode demo_env ''PEM(f)'' = (Some \<lparr>Type = ''X509 CRL'', Headers = [], Bytes = ''f''\<rparr>, [])"
  "ParseRevocationList demo_env ''a'' = Inr demo_A"
  "ParseRevocationList demo_env ''b'' = Inr demo_B"
  "ParseRevocationList demo_env ''f'' = Inr demo_F"
  by (simp_all add: demo_env_def demo_F_def)

lemma demo_raw: "Raw demo_A = ''a''" "Raw demo_B = ''b''" "Raw demo_F = ''f''"
  by (simp_all add: demo_A_def demo_B_def demo_F_def demo_crl_def)

lemma demo_decode:
  "decodePemCrls demo_env [''PEM(a)'', ''PEM(b)''] = Inr [demo_A, demo_B]"
  "decodePemCrls demo_env [''PEM(a)'', ''PEM(f)'', ''PEM(b)''] = Inr [demo_A, demo_F, demo_B]"
  by (simp_all add: decodePemCrls_def decodePemCrl_def demo_pem)

lemma demo_getCaBundle: "getCaBundle demo_env ''default'' = Inr demo_bundle"
  by (simp add: getCaBundle_def demo_fields)

lemmas format_eval =
  getCrlFormat_def strings_ToLower_def isASCII_def ascii_lower_def upperLetters_def
  lowerLetters_def equalFold_def

lemma demo_format:
  "getCrlFormat demo_env ''pem'' = Inr ''pem''"
  "getCrlFormat demo_env ''der'' = Inr ''der''"
  "strings_ToLower demo_env ''pem'' = ''pem''"
  "strings_ToLower demo_env ''der'' = ''der''"
  by (simp_all add: format_eval)

lemma demo_accepted:
  "requestAccepted demo_env (demo_data rawCrls ''pem'' (- 1))"
  "requestAccepted demo_env (demo_data rawCrls ''der'' 3)"
  by (simp_all add: requestAccepted_def demo_data_def demo_fields demo_format)

lemmas handler_eval =
  pathUpdateResignCrlsHandler_def Let_def demo_data_def demo_fields demo_format demo_decode
  demo_getCaBundle verifyCrlsAreFromIssuersKey_def demo_raw demo_A_B encodeResponse_def
  demo_bundle_def decimal_serial_def fmt_d_eval demo_template_def

lemma demo_run_pem:
  "pathUpdateResignCrlsHandler demo_env (demo_data [''PEM(a)'', ''PEM(b)''] ''pem'' (- 1)) =
     (Response [duplicateWarning ''12345''] ''PEM X509 CRL: signed'',
      [CallParseDuration ''72h'', CallDecodePemCrls [''PEM(a)'', ''PEM(b)''],
       CallGetCaBundle ''default'',
       CallVerifyCrlsAreFromIssuersKey ''ca-cert'' [demo_A, demo_B],
       CallGetAllRevokedCerts [demo_A, demo_B],
       CallCreateRevocationList (demo_template []) ''ca-cert'' ''ca-key'',
       CallEncodeResponse ''signed'' False])"
  by (simp add: handler_eval duplicateWarning_def)

lemma demo_run_der:
  "pathUpdateResignCrlsHandler demo_env (demo_data [''PEM(a)'', ''PEM(b)''] ''der'' 3) =
     (Response [duplicateWarning ''12345''] ''B64: signed'',
      [CallParseDuration ''72h'', CallDecodePemCrls [''PEM(a)'', ''PEM(b)''],
       CallGetCaBundle ''default'',
       CallVerifyCrlsAreFromIssuersKey ''ca-cert'' [demo_A, demo_B],
       CallGetAllRevokedCerts [demo_A, demo_B],
       CallCreateDeltaCRLIndicatorExt 3,
       CallCreateRevocationList
         (demo_template [\<lparr>Id_ext = [2, 5, 29, 27], Critical = True, Value = ''3''\<rparr>])
         ''ca-cert'' ''ca-key'',
       CallEncodeResponse ''signed'' True])"
  by (simp add: handler_eval duplicateWarning_def)


section \<open>The reconciler: getAllRevokedCerts\<close>

subsection \<open>The invariant of the loops\<close>

lemma certLoop_append: "certLoop b st (xs @ ys) = certLoop b (certLoop b st xs) ys"
  by (induction xs arbitrary: st) simp_all

lemma crlLoop_allEntries: "crlLoop b st crls = certLoop b st (allEntries crls)"
  by (induction crls arbitrary: st) (simp_all add: allEntries_def certLoop_append)

lemma fst_certStep:
  "fst (certStep b (m, w) e) =
     (case map_of m (serialKey b e) of
        None \<Rightarrow> AList.update (serialKey b e) (e\<lparr>Extensions := []\<rparr>) m
      | Some ex \<Rightarrow> if RevocationTime e < RevocationTime ex
                   then AList.update (serialKey b e) (e\<lparr>Extensions := []\<rparr>) m else m)"
  by (auto simp: certStep_def serialKey_def Let_def time_Equal_def time_After_def split: option.splits)

lemma reconciled_step:
  assumes inv: "reconciled b es m"
  shows "reconciled b (es @ [e]) (fst (certStep b (m, w) e))"
proof -
  let ?k = "serialKey b e"
  let ?e' = "e\<lparr>Extensions := []\<rparr>"
  let ?m' = "fst (certStep b (m, w) e)"
  from inv have dist: "distinct (map fst m)"
    and stored: "\<And>k x. map_of m k = Some x \<Longrightarrow>
         \<exists>e0\<in>set es. x = e0\<lparr>Extensions := []\<rparr> \<and> serialKey b e0 = k \<and>
            (\<forall>e1\<in>set es. serialKey b e1 = k \<longrightarrow> RevocationTime x \<le> RevocationTime e1)"
    and covered: "\<And>e0. e0 \<in> set es \<Longrightarrow> map_of m (serialKey b e0) \<noteq> None"
    unfolding reconciled_def by blast+
  have other: "\<exists>e0\<in>set (es @ [e]). x = e0\<lparr>Extensions := []\<rparr> \<and> serialKey b e0 = k \<and>
            (\<forall>e1\<in>set (es @ [e]). serialKey b e1 = k \<longrightarrow> RevocationTime x \<le> RevocationTime e1)"
    if "map_of m k = Some x" "k \<noteq> ?k \<or> RevocationTime x \<le> RevocationTime e" for k x
    using stored [OF that(1)] that(2) by auto
  have new: "\<exists>e0\<in>set (es @ [e]). ?e' = e0\<lparr>Extensions := []\<rparr> \<and> serialKey b e0 = ?k \<and>
            (\<forall>e1\<in>set (es @ [e]). serialKey b e1 = ?k \<longrightarrow> RevocationTime ?e' \<le> RevocationTime e1)"
    if "\<And>e1. e1 \<in> set es \<Longrightarrow> serialKey b e1 = ?k \<Longrightarrow> RevocationTime e \<le> RevocationTime e1"
    using that by auto
  have cases: "(map_of ?m' = (map_of m)(?k \<mapsto> ?e') \<and> distinct (map fst ?m') \<and>
                 (\<forall>e1\<in>set es. serialKey b e1 = ?k \<longrightarrow> RevocationTime e \<le> RevocationTime e1))
               \<or> (?m' = m \<and> (\<exists>ex. map_of m ?k = Some ex \<and> RevocationTime ex \<le> RevocationTime e))"
  proof (cases "map_of m ?k")
    case None
    have "RevocationTime e \<le> RevocationTime e1"
      if "e1 \<in> set es" "serialKey b e1 = ?k" for e1
      using covered [OF that(1)] that(2) None by simp
    with None dist show ?thesis
      by (simp add: fst_certStep distinct_update update_conv')
  next
    case (Some ex)
    show ?thesis
    proof (cases "RevocationTime e < RevocationTime ex")
      case True
      have "RevocationTime e \<le> RevocationTime e1"
        if "e1 \<in> set es" "serialKey b e1 = ?k" for e1
        using stored [OF Some] that True by fastforce
      with Some True dist show ?thesis
        by (simp add: fst_certStep distinct_update update_conv')
    next
      case False
      with Some show ?thesis by (simp add: fst_certStep)
    qed
  qed
  then show ?thesis
  proof (elim disjE conjE exE)
    assume m': "map_of ?m' = (map_of m)(?k \<mapsto> ?e')" and d': "distinct (map fst ?m')"
      and lower: "\<forall>e1\<in>set es. serialKey b e1 = ?k \<longrightarrow> RevocationTime e \<le> RevocationTime e1"
    show ?thesis
      unfolding reconciled_def
    proof (intro conjI allI impI ballI)
      show "distinct (map fst ?m')" by (rule d')
    next
      fix k x assume "map_of ?m' k = Some x"
      then have "(k = ?k \<and> x = ?e') \<or> (k \<noteq> ?k \<and> map_of m k = Some x)"
        by (auto simp: m' split: if_splits)
      then show "\<exists>e0\<in>set (es @ [e]). x = e0\<lparr>Extensions := []\<rparr> \<and> serialKey b e0 = k \<and>
            (\<forall>e1\<in>set (es @ [e]). serialKey b e1 = k \<longrightarrow> RevocationTime x \<le> RevocationTime e1)"
        using new lower other by blast
    next
      fix e0 assume "e0 \<in> set (es @ [e])"
      then show "map_of ?m' (serialKey b e0) \<noteq> None"
        using covered by (auto simp: m')
    qed
  next
    fix ex
    assume same: "?m' = m" and ex: "map_of m ?k = Some ex"
      and le: "RevocationTime ex \<le> RevocationTime e"
    show ?thesis
      unfolding reconciled_def same
    proof (intro conjI allI impI ballI)
      show "distinct (map fst m)" by (rule dist)
    next
      fix k x assume kx: "map_of m k = Some x"
      have "k \<noteq> ?k \<or> RevocationTime x \<le> RevocationTime e"
        using kx ex le by auto
      with kx show "\<exists>e0\<in>set (es @ [e]). x = e0\<lparr>Extensions := []\<rparr> \<and> serialKey b e0 = k \<and>
            (\<forall>e1\<in>set (es @ [e]). serialKey b e1 = k \<longrightarrow> RevocationTime x \<le> RevocationTime e1)"
        by (rule other)
    next
      fix e0 assume "e0 \<in> set (es @ [e])"
      then show "map_of m (serialKey b e0) \<noteq> None"
        using covered ex by auto
    qed
  qed
qed

lemma reconciled_certLoop: "reconciled b es (fst (certLoop b ([], []) es))"
proof (induction es rule: rev_induct)
  case Nil
  show ?case by (simp add: reconciled_def)
next
  case (snoc e es)
  obtain m w where st: "certLoop b ([], []) es = (m, w)" by (cases "certLoop b ([], []) es")
  with snoc show ?case by (simp add: certLoop_append reconciled_step)
qed


lemma reconciled_reconcile: "reconciled b (allEntries crls) (fst (reconcile b crls))"
  by (simp add: reconcile_def crlLoop_allEntries reconciled_certLoop)

lemma reconciled_key:
  assumes "reconciled b es m" "(k, e) \<in> set m"
  shows "serialFromBigInt b (SerialNumber e) = k"
proof -
  from assms have "map_of m k = Some e" by (simp add: reconciled_def)
  with assms(1) obtain e0 where "e = e0\<lparr>Extensions := []\<rparr>" "serialKey b e0 = k"
    unfolding reconciled_def by blast
  then show ?thesis by (simp add: serialKey_def)
qed

lemma reconciled_distinct_serials:
  assumes "reconciled b es m"
  shows "distinct (map (SerialNumber \<circ> snd) m)"
proof -
  have "map fst m = map (serialFromBigInt b) (map (SerialNumber \<circ> snd) m)"
    using reconciled_key [OF assms] by auto
  moreover from assms have "distinct (map fst m)" by (simp add: reconciled_def)
  ultimately have "distinct (map (serialFromBigInt b) (map (SerialNumber \<circ> snd) m))"
    by (simp only:)
  then show ?thesis by (metis distinct_map)
qed

lemma getAllRevokedCerts_fst:
  "fst (getAllRevokedCerts b crls) = map snd (mapRange b (fst (reconcile b crls)))"
  by (simp add: getAllRevokedCerts_def split: prod.splits)


lemma set_mapRange: "rangePermutes b \<Longrightarrow> set (mapRange b m) = set m"
  unfolding rangePermutes_def by (metis set_mset_mset)

subsection \<open>One entry per serial, the earliest\<close>

text \<open>
  C8. Whatever lists are given and in whatever order the runtime ranges over the map, no
  two returned entries have the same serial number; every returned entry is an input entry
  without its extensions whose revocation time is no later than that of any input entry
  with the same serial number; and every input entry's key is the key of a returned entry.
\<close>

theorem getAllRevokedCerts_unique_earliest:
  assumes "rangePermutes b"
  shows "distinct (map SerialNumber (fst (getAllRevokedCerts b crls))) \<and>
         (\<forall>e\<in>set (fst (getAllRevokedCerts b crls)).
            (\<exists>e0\<in>set (allEntries crls). e = e0\<lparr>Extensions := []\<rparr>) \<and>
            (\<forall>e1\<in>set (allEntries crls).
               SerialNumber e1 = SerialNumber e \<longrightarrow> RevocationTime e \<le> RevocationTime e1)) \<and>
         (\<forall>e1\<in>set (allEntries crls). \<exists>e\<in>set (fst (getAllRevokedCerts b crls)).
            serialFromBigInt b (SerialNumber e) = serialFromBigInt b (SerialNumber e1))"
proof -
  let ?m = "fst (reconcile b crls)"
  let ?es = "allEntries crls"
  have inv: "reconciled b ?es ?m" by (rule reconciled_reconcile)
  have perm: "mset (mapRange b ?m) = mset ?m"
    using assms by (simp add: rangePermutes_def)
  have out: "set (fst (getAllRevokedCerts b crls)) = snd ` set ?m"
    by (simp add: getAllRevokedCerts_fst set_mapRange [OF assms])
  have "mset (map SerialNumber (fst (getAllRevokedCerts b crls))) = mset (map (SerialNumber \<circ> snd) ?m)"
    by (simp add: getAllRevokedCerts_fst perm)
  then have c1: "distinct (map SerialNumber (fst (getAllRevokedCerts b crls)))"
    using reconciled_distinct_serials [OF inv] by (metis mset_eq_imp_distinct_iff)
  have c2: "(\<exists>e0\<in>set ?es. e = e0\<lparr>Extensions := []\<rparr>) \<and>
            (\<forall>e1\<in>set ?es. SerialNumber e1 = SerialNumber e \<longrightarrow> RevocationTime e \<le> RevocationTime e1)"
    if "e \<in> set (fst (getAllRevokedCerts b crls))" for e
  proof -
    from that out obtain k where "(k, e) \<in> set ?m" by auto
    with inv have "map_of ?m k = Some e" by (simp add: reconciled_def)
    with inv obtain e0 where e0: "e0 \<in> set ?es" "e = e0\<lparr>Extensions := []\<rparr>" "serialKey b e0 = k"
      and low: "\<forall>e1\<in>set ?es. serialKey b e1 = k \<longrightarrow> RevocationTime e \<le> RevocationTime e1"
      unfolding reconciled_def by blast
    have "serialKey b e1 = k" if "SerialNumber e1 = SerialNumber e" for e1
      using that e0 by (simp add: serialKey_def)
    with e0 low show ?thesis by blast
  qed
  have c3: "\<exists>e\<in>set (fst (getAllRevokedCerts b crls)).
            serialFromBigInt b (SerialNumber e) = serialFromBigInt b (SerialNumber e1)"
    if "e1 \<in> set ?es" for e1
  proof -
    from inv that obtain e where "map_of ?m (serialKey b e1) = Some e"
      unfolding reconciled_def by blast
    then have "(serialKey b e1, e) \<in> set ?m" by (rule map_of_SomeD)
    with reconciled_key [OF inv this] out show ?thesis
      by (force simp: serialKey_def)
  qed
  from c1 c2 c3 show ?thesis by blast
qed


theorem getAllRevokedCerts_unique_earliest_witness:
  "rangePermutes demo_env \<and>
   distinct (map SerialNumber (fst (getAllRevokedCerts demo_env [demo_A, demo_B]))) \<and>
   \<lparr>SerialNumber = 12345, RevocationTime = 100, Extensions = []\<rparr>
     \<in> set (fst (getAllRevokedCerts demo_env [demo_A, demo_B])) \<and>
   (\<exists>e0\<in>set (allEntries [demo_A, demo_B]).
      \<lparr>SerialNumber = 12345, RevocationTime = 100, Extensions = []\<rparr> = e0\<lparr>Extensions := []\<rparr>) \<and>
   last (RevokedCertificates demo_B) \<in> set (allEntries [demo_A, demo_B]) \<and>
   SerialNumber (last (RevokedCertificates demo_B)) = 12345 \<and>
   100 \<le> RevocationTime (last (RevokedCertificates demo_B)) \<and>
   (\<exists>e\<in>set (fst (getAllRevokedCerts demo_env [demo_A, demo_B])).
      serialFromBigInt demo_env (SerialNumber e) =
      serialFromBigInt demo_env (SerialNumber (last (RevokedCertificates demo_B))))"
proof -
  let ?e = "\<lparr>SerialNumber = 12345, RevocationTime = 100, Extensions = []\<rparr>"
  let ?c = "last (RevokedCertificates demo_B)"
  have out: "?e \<in> set (fst (getAllRevokedCerts demo_env [demo_A, demo_B]))"
    by (simp add: demo_A_B)
  have inp: "?c \<in> set (allEntries [demo_A, demo_B])" "SerialNumber ?c = 12345"
    by (simp_all add: allEntries_def demo_A_def demo_B_def demo_crl_def)
  from getAllRevokedCerts_unique_earliest [OF demo_rangePermutes, of "[demo_A, demo_B]"]
  have d: "distinct (map SerialNumber (fst (getAllRevokedCerts demo_env [demo_A, demo_B])))"
    and stored: "\<exists>e0\<in>set (allEntries [demo_A, demo_B]). ?e = e0\<lparr>Extensions := []\<rparr>"
    and low: "SerialNumber ?c = SerialNumber ?e \<longrightarrow> RevocationTime ?e \<le> RevocationTime ?c"
    and cov: "\<exists>e\<in>set (fst (getAllRevokedCerts demo_env [demo_A, demo_B])).
      serialFromBigInt demo_env (SerialNumber e) = serialFromBigInt demo_env (SerialNumber ?c)"
    using out inp(1) by blast+
  from low inp(2) have "100 \<le> RevocationTime ?c" by simp
  with demo_rangePermutes d out stored inp cov show ?thesis by blast
qed

subsection \<open>Two lists that disagree on one serial\<close>

lemma duplicateWarning_inj [simp]: "duplicateWarning k = duplicateWarning k' \<longleftrightarrow> k = k'"
  by (simp add: duplicateWarning_def)








subsection \<open>A list given twice\<close>








lemma allEntries_append: "allEntries (xs @ ys) = allEntries xs @ allEntries ys"
  by (simp add: allEntries_def)





section \<open>The handler: pathUpdateResignCrlsHandler\<close>

lemmas handler_splits =
  sum.splits option.splits failure.splits if_splits prod.splits

lemma requestAcceptedE:
  assumes "requestAccepted b data"
  obtains f d where "\<not> useLegacyBundleCaStorage b"
    and "getCrlFormat b (Get_format data) = Inr f"
    and "f = strings_ToLower b (Get_format data)"
    and "ParseDuration b (Get_next_update data) = Inr d" and "0 < d"
    and "0 \<le> Get_crl_number data" and "- 1 \<le> Get_delta_crl_base_number data"
    and "getIssuerRef b data \<noteq> []"
proof -
  from assms obtain f where f: "getCrlFormat b (Get_format data) = Inr f"
    by (cases "getCrlFormat b (Get_format data)") (simp_all add: requestAccepted_def)
  then have "f = strings_ToLower b (Get_format data)"
    by (simp add: getCrlFormat_def Let_def split: if_splits)
  moreover from assms obtain d where "ParseDuration b (Get_next_update data) = Inr d" "0 < d"
    by (cases "ParseDuration b (Get_next_update data)") (simp_all add: requestAccepted_def)
  ultimately show ?thesis
    using assms f that by (simp add: requestAccepted_def)
qed

lemma getAllRevokedCerts_err: "snd (snd (getAllRevokedCerts b crls)) = None"
  by (simp add: getAllRevokedCerts_def split: prod.splits)

subsection \<open>Signature verification is all or nothing\<close>

lemma verifyCrls_loop_eq:
  "verifyCrls_loop b caCert k crls =
     (if list_all (signatureOk b caCert) crls then None
      else Some (''CRL index: '' @ fmt_d (k + firstUnsigned b caCert crls) @
                 '' was not signed by requested issuer''))"
  by (induction crls arbitrary: k)
    (auto simp: signatureOk_def firstUnsigned_def split: option.splits)

lemma verifyCrlsAreFromIssuersKey_eq:
  "verifyCrlsAreFromIssuersKey b caCert crls =
     (if list_all (signatureOk b caCert) crls then None
      else Some (''CRL index: '' @ fmt_d (firstUnsigned b caCert crls) @
                 '' was not signed by requested issuer''))"
  by (simp add: verifyCrlsAreFromIssuersKey_def verifyCrls_loop_eq)

lemma length_takeWhile_lt: "\<not> list_all P xs \<Longrightarrow> length (takeWhile P xs) < length xs"
  by (induction xs) auto

lemma firstUnsigned_first:
  assumes "\<not> list_all (signatureOk b caCert) crls"
  shows "firstUnsigned b caCert crls < length crls"
    and "\<not> signatureOk b caCert (crls ! firstUnsigned b caCert crls)"
    and "\<forall>j<firstUnsigned b caCert crls. signatureOk b caCert (crls ! j)"
proof -
  show lt: "firstUnsigned b caCert crls < length crls"
    unfolding firstUnsigned_def using assms by (rule length_takeWhile_lt)
  then show "\<not> signatureOk b caCert (crls ! firstUnsigned b caCert crls)"
    unfolding firstUnsigned_def by (rule nth_length_takeWhile)
  show "\<forall>j<firstUnsigned b caCert crls. signatureOk b caCert (crls ! j)"
    unfolding firstUnsigned_def
    by (metis nth_mem set_takeWhileD takeWhile_nth)
qed

lemma handler_unsigned:
  assumes acc: "requestAccepted b data"
    and dec: "decodePemCrls b (Get_crls data) = Inr providedCrls"
    and cab: "getCaBundle b (getIssuerRef b data) = Inr caBundle"
    and bad: "verifyCrlsAreFromIssuersKey b (Certificate caBundle) providedCrls = Some err"
  shows "pathUpdateResignCrlsHandler b data =
     (ErrorResponse err,
      [CallParseDuration (Get_next_update data), CallDecodePemCrls (Get_crls data),
       CallGetCaBundle (getIssuerRef b data),
       CallVerifyCrlsAreFromIssuersKey (Certificate caBundle) providedCrls])"
  using acc
proof (rule requestAcceptedE)
  fix f d
  assume "\<not> useLegacyBundleCaStorage b"
    "getCrlFormat b (Get_format data) = Inr f"
    "f = strings_ToLower b (Get_format data)"
    "ParseDuration b (Get_next_update data) = Inr d" "0 < d"
    "0 \<le> Get_crl_number data" "- 1 \<le> Get_delta_crl_base_number data"
    "getIssuerRef b data \<noteq> []"
  with dec cab bad show ?thesis
    by (simp add: pathUpdateResignCrlsHandler_def)
qed

text \<open>
  C2. The request passes the field checks, its strings decode and the issuer is found. If
  the signature of some decoded list does not verify, the handler returns the error
  response naming the index of the first such list, and the calls it has made end with
  the verification: it has not called getAllRevokedCerts, built an extension or signed,
  so no entry of any list reaches an output.
\<close>

theorem handler_rejects_unsigned:
  assumes acc: "requestAccepted b data"
    and dec: "decodePemCrls b (Get_crls data) = Inr providedCrls"
    and cab: "getCaBundle b (getIssuerRef b data) = Inr caBundle"
    and bad: "\<exists>crl\<in>set providedCrls. CheckSignatureFrom b crl (Certificate caBundle) \<noteq> None"
  shows "firstUnsigned b (Certificate caBundle) providedCrls < length providedCrls \<and>
         CheckSignatureFrom b
           (providedCrls ! firstUnsigned b (Certificate caBundle) providedCrls)
           (Certificate caBundle) \<noteq> None \<and>
         (\<forall>j<firstUnsigned b (Certificate caBundle) providedCrls.
            CheckSignatureFrom b (providedCrls ! j) (Certificate caBundle) = None) \<and>
         pathUpdateResignCrlsHandler b data =
           (ErrorResponse
              (''CRL index: '' @ fmt_d (firstUnsigned b (Certificate caBundle) providedCrls) @
               '' was not signed by requested issuer''),
            [CallParseDuration (Get_next_update data), CallDecodePemCrls (Get_crls data),
             CallGetCaBundle (getIssuerRef b data),
             CallVerifyCrlsAreFromIssuersKey (Certificate caBundle) providedCrls]) \<and>
         (\<forall>c\<in>set (snd (pathUpdateResignCrlsHandler b data)).
            (\<forall>crls. c \<noteq> CallGetAllRevokedCerts crls) \<and> \<not> buildsOrSigns c)"
proof -
  let ?ca = "Certificate caBundle"
  from bad have not_all: "\<not> list_all (signatureOk b ?ca) providedCrls"
    by (auto simp: list_all_iff signatureOk_def)
  then have err: "verifyCrlsAreFromIssuersKey b ?ca providedCrls =
      Some (''CRL index: '' @ fmt_d (firstUnsigned b ?ca providedCrls) @
            '' was not signed by requested issuer'')"
    by (simp add: verifyCrlsAreFromIssuersKey_eq)
  note run = handler_unsigned [OF acc dec cab err]
  from firstUnsigned_first [OF not_all] run show ?thesis
    by (simp add: signatureOk_def buildsOrSigns_def)
qed

theorem handler_rejects_unsigned_witness:
  "requestAccepted demo_env (demo_data [''PEM(a)'', ''PEM(f)'', ''PEM(b)''] ''pem'' (- 1)) \<and>
   decodePemCrls demo_env (Get_crls (demo_data [''PEM(a)'', ''PEM(f)'', ''PEM(b)''] ''pem'' (- 1)))
     = Inr [demo_A, demo_F, demo_B] \<and>
   getCaBundle demo_env
       (getIssuerRef demo_env (demo_data [''PEM(a)'', ''PEM(f)'', ''PEM(b)''] ''pem'' (- 1)))
     = Inr demo_bundle \<and>
   (\<exists>crl\<in>set [demo_A, demo_F, demo_B].
      CheckSignatureFrom demo_env crl (Certificate demo_bundle) \<noteq> None) \<and>
   pathUpdateResignCrlsHandler demo_env
       (demo_data [''PEM(a)'', ''PEM(f)'', ''PEM(b)''] ''pem'' (- 1)) =
     (ErrorResponse ''CRL index: 1 was not signed by requested issuer'',
      [CallParseDuration ''72h'', CallDecodePemCrls [''PEM(a)'', ''PEM(f)'', ''PEM(b)''],
       CallGetCaBundle ''default'',
       CallVerifyCrlsAreFromIssuersKey ''ca-cert'' [demo_A, demo_F, demo_B]])"
proof -
  let ?D = "demo_data [''PEM(a)'', ''PEM(f)'', ''PEM(b)''] ''pem'' (- 1)"
  have acc: "requestAccepted demo_env ?D" by (rule demo_accepted)
  have dec: "decodePemCrls demo_env (Get_crls ?D) = Inr [demo_A, demo_F, demo_B]"
    by (simp add: demo_data_def demo_decode)
  have cab: "getCaBundle demo_env (getIssuerRef demo_env ?D) = Inr demo_bundle"
    by (simp add: demo_data_def demo_fields demo_getCaBundle)
  have bad: "\<exists>crl\<in>set [demo_A, demo_F, demo_B].
      CheckSignatureFrom demo_env crl (Certificate demo_bundle) \<noteq> None"
    by (simp add: demo_fields demo_raw)
  have first: "firstUnsigned demo_env (Certificate demo_bundle) [demo_A, demo_F, demo_B] = 1"
    by (simp add: firstUnsigned_def signatureOk_def demo_fields demo_raw)
  from handler_rejects_unsigned [OF acc dec cab bad]
  have "pathUpdateResignCrlsHandler demo_env ?D =
     (ErrorResponse ''CRL index: 1 was not signed by requested issuer'',
      [CallParseDuration ''72h'', CallDecodePemCrls [''PEM(a)'', ''PEM(f)'', ''PEM(b)''],
       CallGetCaBundle ''default'',
       CallVerifyCrlsAreFromIssuersKey ''ca-cert'' [demo_A, demo_F, demo_B]])"
    unfolding first by (simp add: demo_data_def demo_fields demo_bundle_def fmt_d_eval)
  with acc dec cab bad show ?thesis by blast
qed

subsection \<open>Decoding\<close>

text \<open>
  A string that fails to decode with an error, after strings that decode, is reported
  with its index.
\<close>

lemma decodePemCrls_loop_error:
  assumes "\<forall>raw\<in>set pre. \<not> isl (decodePemCrl b raw)"
    and "decodePemCrl b bad = Inl (Err err)"
  shows "decodePemCrls_loop b i acc (pre @ bad # post) =
           Inl (Err (''failed decoding crl '' @ fmt_d (i + length pre) @ '': '' @ err))"
  using assms(1)
proof (induction pre arbitrary: i acc)
  case Nil
  with assms(2) show ?case by simp
next
  case (Cons raw pre)
  then obtain crl where "decodePemCrl b raw = Inr crl"
    by (cases "decodePemCrl b raw") simp_all
  with Cons show ?case by simp
qed

lemma decodePemCrl_trailing:
  "snd (pem_Decode b raw) \<noteq> [] \<Longrightarrow>
     decodePemCrl b raw = Inl (Err ''invalid crl; should be one PEM block only'')"
  by (cases "pem_Decode b raw") (simp add: decodePemCrl_def)

lemma decodePemCrl_empty:
  "pem_Decode b [] = (None, []) \<Longrightarrow> decodePemCrl b [] = Inl NilDereference"
  by (simp add: decodePemCrl_def)

lemma decodePemCrls_loop_panic:
  assumes "\<forall>raw\<in>set pre. \<not> isl (decodePemCrl b raw)"
    and "decodePemCrl b bad = Inl NilDereference"
  shows "decodePemCrls_loop b i acc (pre @ bad # post) = Inl NilDereference"
  using assms(1)
proof (induction pre arbitrary: i acc)
  case Nil
  with assms(2) show ?case by simp
next
  case (Cons raw pre)
  then obtain crl where "decodePemCrl b raw = Inr crl"
    by (cases "decodePemCrl b raw") simp_all
  with Cons show ?case by simp
qed

text \<open>
  C3 fails on the empty string. \<^verbatim>\<open>pem.Decode\<close> finds no block in it and returns it whole
  as the rest, which is empty; the length check passes and the read of \<^verbatim>\<open>block.Bytes\<close>
  panics. A request that passes the field checks and carries an empty string, after
  strings that decode, gets no error response: the handler panics in decodePemCrls.
\<close>

theorem handler_panics_on_empty_crl:
  assumes acc: "requestAccepted b data"
    and empty: "Get_crls data = pre @ [] # post"
    and decoded: "\<forall>raw\<in>set pre. \<not> isl (decodePemCrl b raw)"
    and nil_block: "pem_Decode b [] = (None, [])"
  shows "pathUpdateResignCrlsHandler b data =
           (Panicked,
            [CallParseDuration (Get_next_update data), CallDecodePemCrls (pre @ [] # post)])"
  using acc
proof (rule requestAcceptedE)
  fix f d
  assume "\<not> useLegacyBundleCaStorage b"
    "getCrlFormat b (Get_format data) = Inr f"
    "f = strings_ToLower b (Get_format data)"
    "ParseDuration b (Get_next_update data) = Inr d" "0 < d"
    "0 \<le> Get_crl_number data" "- 1 \<le> Get_delta_crl_base_number data"
    "getIssuerRef b data \<noteq> []"
  moreover have "decodePemCrls b (pre @ [] # post) = Inl NilDereference"
    unfolding decodePemCrls_def
    by (rule decodePemCrls_loop_panic [OF decoded decodePemCrl_empty [OF nil_block]])
  ultimately show ?thesis
    using empty by (simp add: pathUpdateResignCrlsHandler_def)
qed

theorem handler_panics_on_empty_crl_witness:
  "requestAccepted demo_env (demo_data [''PEM(a)'', [], ''PEM(b)''] ''pem'' (- 1)) \<and>
   Get_crls (demo_data [''PEM(a)'', [], ''PEM(b)''] ''pem'' (- 1)) = [''PEM(a)''] @ [] # [''PEM(b)''] \<and>
   decodePemCrl demo_env ''PEM(a)'' = Inr demo_A \<and>
   pem_Decode demo_env [] = (None, []) \<and>
   pathUpdateResignCrlsHandler demo_env (demo_data [''PEM(a)'', [], ''PEM(b)''] ''pem'' (- 1)) =
     (Panicked, [CallParseDuration ''72h'', CallDecodePemCrls [''PEM(a)'', [], ''PEM(b)'']])"
proof -
  let ?D = "demo_data [''PEM(a)'', [], ''PEM(b)''] ''pem'' (- 1)"
  have acc: "requestAccepted demo_env ?D" by (rule demo_accepted)
  have empty: "Get_crls ?D = [''PEM(a)''] @ [] # [''PEM(b)'']" by (simp add: demo_data_def)
  have a: "decodePemCrl demo_env ''PEM(a)'' = Inr demo_A"
    by (simp add: decodePemCrl_def demo_pem)
  then have decoded: "\<forall>raw\<in>set [''PEM(a)'']. \<not> isl (decodePemCrl demo_env raw)" by simp
  have nil_block: "pem_Decode demo_env [] = (None, [])" by (rule demo_pem)
  from handler_panics_on_empty_crl [OF acc empty decoded nil_block]
  have "pathUpdateResignCrlsHandler demo_env ?D =
     (Panicked, [CallParseDuration ''72h'', CallDecodePemCrls [''PEM(a)'', [], ''PEM(b)'']])"
    by (simp add: demo_data_def)
  with acc empty a nil_block show ?thesis by blast
qed

subsection \<open>The format is checked first\<close>








subsection \<open>The delta indicator\<close>

text \<open>
  C6. Whenever the handler signs, the template it signs has no extra extension if the
  request's base number is -1, and if the base number is 0 or more it has exactly one, the
  extension \<^verbatim>\<open>CreateDeltaCRLIndicatorExt\<close> returned for that number. Every successful
  request signs.
\<close>

theorem handler_delta_extension:
  "(\<forall>template ca key.
      CallCreateRevocationList template ca key \<in> set (snd (pathUpdateResignCrlsHandler b data)) \<longrightarrow>
        (Get_delta_crl_base_number data = - 1 \<longrightarrow> ExtraExtensions template = []) \<and>
        (0 \<le> Get_delta_crl_base_number data \<longrightarrow>
           (\<exists>ext. CreateDeltaCRLIndicatorExt b (Get_delta_crl_base_number data) = Inr ext \<and>
                  ExtraExtensions template = [ext]))) \<and>
   (\<forall>warnings body. fst (pathUpdateResignCrlsHandler b data) = Response warnings body \<longrightarrow>
      (\<exists>template ca key.
         CallCreateRevocationList template ca key \<in> set (snd (pathUpdateResignCrlsHandler b data))))"
proof (intro conjI allI impI)
  fix template ca key
  assume signed: "CallCreateRevocationList template ca key
      \<in> set (snd (pathUpdateResignCrlsHandler b data))"
  show "ExtraExtensions template = []" if "Get_delta_crl_base_number data = - 1"
    using signed that
    by (auto simp: pathUpdateResignCrlsHandler_def Let_def split: handler_splits)
  show "\<exists>ext. CreateDeltaCRLIndicatorExt b (Get_delta_crl_base_number data) = Inr ext \<and>
          ExtraExtensions template = [ext]" if "0 \<le> Get_delta_crl_base_number data"
    using signed that
    by (auto simp: pathUpdateResignCrlsHandler_def Let_def split: handler_splits)
next
  fix warnings body
  assume "fst (pathUpdateResignCrlsHandler b data) = Response warnings body"
  then show "\<exists>template ca key.
      CallCreateRevocationList template ca key \<in> set (snd (pathUpdateResignCrlsHandler b data))"
    by (auto simp: pathUpdateResignCrlsHandler_def Let_def split: handler_splits)
qed

theorem handler_delta_extension_witness:
  "CallCreateRevocationList (demo_template []) ''ca-cert'' ''ca-key''
     \<in> set (snd (pathUpdateResignCrlsHandler demo_env
                   (demo_data [''PEM(a)'', ''PEM(b)''] ''pem'' (- 1)))) \<and>
   ExtraExtensions (demo_template []) = [] \<and>
   CallCreateRevocationList
       (demo_template [\<lparr>Id_ext = [2, 5, 29, 27], Critical = True, Value = ''3''\<rparr>])
       ''ca-cert'' ''ca-key''
     \<in> set (snd (pathUpdateResignCrlsHandler demo_env
                   (demo_data [''PEM(a)'', ''PEM(b)''] ''der'' 3))) \<and>
   CreateDeltaCRLIndicatorExt demo_env 3 =
     Inr \<lparr>Id_ext = [2, 5, 29, 27], Critical = True, Value = ''3''\<rparr> \<and>
   ExtraExtensions
       (demo_template [\<lparr>Id_ext = [2, 5, 29, 27], Critical = True, Value = ''3''\<rparr>]) =
     [\<lparr>Id_ext = [2, 5, 29, 27], Critical = True, Value = ''3''\<rparr>]"
proof -
  let ?D1 = "demo_data [''PEM(a)'', ''PEM(b)''] ''pem'' (- 1)"
  let ?D2 = "demo_data [''PEM(a)'', ''PEM(b)''] ''der'' 3"
  let ?ext = "\<lparr>Id_ext = [2, 5, 29, 27], Critical = True, Value = ''3''\<rparr>"
  have in1: "CallCreateRevocationList (demo_template []) ''ca-cert'' ''ca-key''
      \<in> set (snd (pathUpdateResignCrlsHandler demo_env ?D1))"
    by (simp add: demo_run_pem)
  have in2: "CallCreateRevocationList (demo_template [?ext]) ''ca-cert'' ''ca-key''
      \<in> set (snd (pathUpdateResignCrlsHandler demo_env ?D2))"
    by (simp add: demo_run_der)
  have d: "Get_delta_crl_base_number ?D1 = - 1" "0 \<le> Get_delta_crl_base_number ?D2"
    "Get_delta_crl_base_number ?D2 = 3"
    by (simp_all add: demo_data_def)
  have ext: "CreateDeltaCRLIndicatorExt demo_env 3 = Inr ?ext"
    by (simp add: demo_fields decimal_serial_def fmt_d_eval)
  from handler_delta_extension [of demo_env ?D1] in1 d(1)
  have e1: "ExtraExtensions (demo_template []) = []" by blast
  from handler_delta_extension [of demo_env ?D2] in2 d(2)
  obtain x where "CreateDeltaCRLIndicatorExt demo_env (Get_delta_crl_base_number ?D2) = Inr x"
    "ExtraExtensions (demo_template [?ext]) = [x]" by blast
  with ext d(3) have e2: "ExtraExtensions (demo_template [?ext]) = [?ext]" by simp
  from in1 in2 ext e1 e2 show ?thesis by blast
qed

subsection \<open>Internal errors and validation errors\<close>




subsection \<open>The response encoder\<close>

text \<open>
  C9. encodeResponse returns the base64 text of the bytes when DER was requested and
  otherwise the PEM encoding of one block of type X509 CRL holding the bytes; and the
  \<^verbatim>\<open>crl\<close> field of every successful response is that encoding of the bytes the signing
  returned, DER exactly when the lower-cased format is \<^verbatim>\<open>der\<close>.
\<close>

theorem encodeResponse_exact:
  "encodeResponse b crlBytes True = StdEncoding_EncodeToString b crlBytes \<and>
   encodeResponse b crlBytes False =
     pem_EncodeToMemory b \<lparr>Type = ''X509 CRL'', Headers = [], Bytes = crlBytes\<rparr> \<and>
   (\<forall>warnings body.
      fst (pathUpdateResignCrlsHandler b data) = Response warnings body \<longrightarrow>
        (\<exists>template ca key signed.
           CallCreateRevocationList template ca key
             \<in> set (snd (pathUpdateResignCrlsHandler b data)) \<and>
           CreateRevocationList b template ca key = Inr signed \<and>
           body =
             (if strings_ToLower b (Get_format data) = ''der''
              then StdEncoding_EncodeToString b signed
              else pem_EncodeToMemory b
                     \<lparr>Type = ''X509 CRL'', Headers = [], Bytes = signed\<rparr>)))"
  by (auto simp: pathUpdateResignCrlsHandler_def Let_def encodeResponse_def getCrlFormat_def
      split: handler_splits)

theorem encodeResponse_exact_witness:
  "fst (pathUpdateResignCrlsHandler demo_env (demo_data [''PEM(a)'', ''PEM(b)''] ''der'' 3)) =
     Response [duplicateWarning ''12345''] ''B64: signed'' \<and>
   strings_ToLower demo_env (Get_format (demo_data [''PEM(a)'', ''PEM(b)''] ''der'' 3)) = ''der'' \<and>
   (\<exists>template ca key signed.
      CallCreateRevocationList template ca key
        \<in> set (snd (pathUpdateResignCrlsHandler demo_env
                      (demo_data [''PEM(a)'', ''PEM(b)''] ''der'' 3))) \<and>
      CreateRevocationList demo_env template ca key = Inr signed \<and>
      ''B64: signed'' = StdEncoding_EncodeToString demo_env signed) \<and>
   encodeResponse demo_env ''signed'' False =
     pem_EncodeToMemory demo_env \<lparr>Type = ''X509 CRL'', Headers = [], Bytes = ''signed''\<rparr>"
proof -
  let ?D = "demo_data [''PEM(a)'', ''PEM(b)''] ''der'' 3"
  have run: "fst (pathUpdateResignCrlsHandler demo_env ?D) =
      Response [duplicateWarning ''12345''] ''B64: signed''"
    by (simp add: demo_run_der)
  have der: "strings_ToLower demo_env (Get_format ?D) = ''der''"
    by (simp add: demo_data_def demo_format)
  note inst = encodeResponse_exact [of demo_env "''signed''" ?D]
  from inst [THEN conjunct2, THEN conjunct2, rule_format, OF run]
  obtain template ca key signed where
    c: "CallCreateRevocationList template ca key
          \<in> set (snd (pathUpdateResignCrlsHandler demo_env ?D))"
    and s: "CreateRevocationList demo_env template ca key = Inr signed"
    and b: "''B64: signed'' =
          (if strings_ToLower demo_env (Get_format ?D) = ''der''
           then StdEncoding_EncodeToString demo_env signed
           else pem_EncodeToMemory demo_env
                  \<lparr>Type = ''X509 CRL'', Headers = [], Bytes = signed\<rparr>)"
    by blast
  from b [symmetric] have "StdEncoding_EncodeToString demo_env signed = ''B64: signed''"
    by (simp add: der)
  then have "''B64: signed'' = StdEncoding_EncodeToString demo_env signed"
    by (rule sym)
  with c s have ex: "\<exists>template ca key signed.
      CallCreateRevocationList template ca key
        \<in> set (snd (pathUpdateResignCrlsHandler demo_env ?D)) \<and>
      CreateRevocationList demo_env template ca key = Inr signed \<and>
      ''B64: signed'' = StdEncoding_EncodeToString demo_env signed"
    by blast
  from inst have "encodeResponse demo_env ''signed'' False =
     pem_EncodeToMemory demo_env \<lparr>Type = ''X509 CRL'', Headers = [], Bytes = ''signed''\<rparr>"
    by (rule conjunct2 [THEN conjunct1])
  with run der ex show ?thesis by (intro conjI)
qed

subsection \<open>No input lists\<close>



end
